theory Spec2Isabelle
  imports Main
begin

section \<open>zproxy: a virtual-host router (zproxy.go)\<close>

text \<open>
  The program keeps four package-level maps from host name to an entry (redirect, proxy,
  notFound, static), fills them once in \<open>main\<close> and then answers every request in
  \<open>Handler\<close>, which looks the request's host up in the four maps in a fixed order.

  What the program does to the outside world is recorded as a trace of the calls it
  makes on the platform: a line handed to the process log, and the calls of the
  net/http primitives that write the response. Go strings are byte strings, here
  \<open>string\<close>. A Go \<open>error\<close> is modelled by its message.
\<close>

subsection \<open>Data\<close>

type_synonym error = string

text \<open>The \<open>http.Handler\<close> values the program stores; \<open>NilHandler\<close> is a field never set.\<close>

datatype http_Handler = NilHandler | NotFoundHandler | FileServer string

text \<open>\<open>httputil.NewSingleHostReverseProxy(u)\<close>: the forwarding client bound to \<open>u\<close>.\<close>

datatype 'u ReverseProxy = NewSingleHostReverseProxy 'u

record Redirect =
  Redirect_To :: string
  Redirect_Handler :: http_Handler

record Static =
  Dir :: string
  Static_Handler :: http_Handler

record 'u Proxy =
  Proxy_To :: string
  Proxy_ReverseProxy :: "'u ReverseProxy"

record NotFound =
  NotFound_Handler :: http_Handler

text \<open>The fields of \<open>http.Request\<close> that the program reads.\<close>

record Request =
  Host :: string
  RequestURI :: string
  URL_Path :: string

text \<open>The package-level variables.\<close>

record 'u globals =
  redirect :: "string \<rightharpoonup> Redirect"
  proxy :: "string \<rightharpoonup> 'u Proxy"
  notFound :: "string \<rightharpoonup> NotFound"
  static :: "string \<rightharpoonup> Static"
  genericNotFound :: http_Handler

text \<open>
  The calls made on the platform, in order. \<open>Log\<close> is a line given to the \<open>log\<close>
  package (without the time prefix that the package adds); the others are the calls
  that write to the \<open>http.ResponseWriter\<close> of the request being served.
\<close>

datatype 'u call =
    Log string
  | http_Redirect string nat
  | http_ServeFile string
  | ReverseProxy_ServeHTTP "'u ReverseProxy"
  | Handler_ServeHTTP http_Handler

text \<open>
  How a run can stop early: \<open>log.Fatal\<close> ends the process with \<open>os.Exit(1)\<close>, and a
  run-time panic (a slice out of range, a nil interface) unwinds the goroutine.
\<close>

datatype failure = Exit nat | Panic string

definition nl :: string where
  "nl = [CHR 0x0A]"

subsection \<open>The four handlers\<close>

definition Redirect_ServeHTTP :: "Redirect \<Rightarrow> Request \<Rightarrow> failure + 'u call list" where
  "Redirect_ServeHTTP r request =
     Inr [Log (''Redirecting('' @ Host request @ '') '' @ Redirect_To r @ nl),
          http_Redirect (Redirect_To r @ RequestURI request) 301]"

text \<open>
  \<open>request.URL.Path[1:]\<close>: Go checks the bounds of a slice expression, and the low bound
  1 is in range exactly when the string has at least one byte.
\<close>

definition slice_from1 :: "string \<Rightarrow> failure + string" where
  "slice_from1 s =
     (if 1 \<le> length s then Inr (drop 1 s)
      else Inl (Panic ''slice bounds out of range''))"

definition Static_ServeHTTP :: "Static \<Rightarrow> Request \<Rightarrow> failure + 'u call list" where
  "Static_ServeHTTP s request =
     (case slice_from1 (URL_Path request) of
        Inl f \<Rightarrow> Inl f
      | Inr path \<Rightarrow>
          Inr [Log (''Serving('' @ Host request @ '') '' @ Dir s @ path @ nl),
               http_ServeFile (Dir s @ path)])"

definition Proxy_ServeHTTP :: "'u Proxy \<Rightarrow> Request \<Rightarrow> failure + 'u call list" where
  "Proxy_ServeHTTP p request =
     Inr [Log (''Proxying('' @ Host request @ '') '' @ Proxy_To p @ RequestURI request @ nl),
          ReverseProxy_ServeHTTP (Proxy_ReverseProxy p)]"

text \<open>Calling a method on a nil interface value panics.\<close>

definition NotFound_ServeHTTP :: "NotFound \<Rightarrow> Request \<Rightarrow> failure + 'u call list" where
  "NotFound_ServeHTTP n request =
     (if NotFound_Handler n = NilHandler
      then Inl (Panic ''nil pointer dereference'')
      else Inr [Log (''Not Found('' @ Host request @ '') '' @ RequestURI request @ nl),
                Handler_ServeHTTP (NotFound_Handler n)])"

subsection \<open>Registration\<close>

text \<open>
  Each factory writes one map of the package state. The result is the trace of the
  call, and either the new state or the way the process ended.
\<close>

type_synonym ('u, 'a) run = "'u call list \<times> (failure + 'a)"

definition addNotFound :: "string \<Rightarrow> 'u globals \<Rightarrow> ('u, 'u globals) run" where
  "addNotFound host g =
     ([Log (''Adding host to notFound: '' @ host @ nl)],
      Inr (g\<lparr>notFound := (notFound g)(host \<mapsto> \<lparr>NotFound_Handler = NotFoundHandler\<rparr>)\<rparr>))"

definition addRedirect :: "string \<Rightarrow> string \<Rightarrow> 'u globals \<Rightarrow> ('u, 'u globals) run" where
  "addRedirect from to g =
     ([Log (''Adding from/to: '' @ from @ '' '' @ to @ nl)],
      Inr (g\<lparr>redirect := (redirect g)(from \<mapsto>
             \<lparr>Redirect_To = to, Redirect_Handler = NilHandler\<rparr>)\<rparr>))"

text \<open>
  \<open>url.Parse\<close> belongs to the Go library; it is the parameter \<open>parse\<close>, giving the
  error or the parsed URL. \<open>log.Fatal(err)\<close> prints the error and exits with status 1.
\<close>

definition log_Fatal :: "error \<Rightarrow> ('u, 'a) run" where
  "log_Fatal err = ([Log (err @ nl)], Inl (Exit 1))"

definition addProxy ::
  "(string \<Rightarrow> error + 'u) \<Rightarrow> string \<Rightarrow> string \<Rightarrow> 'u globals \<Rightarrow> ('u, 'u globals) run" where
  "addProxy parse host to g =
     (case parse to of
        Inl err \<Rightarrow> log_Fatal err
      | Inr u \<Rightarrow>
          ([], Inr (g\<lparr>proxy := (proxy g)(host \<mapsto>
                  \<lparr>Proxy_To = to, Proxy_ReverseProxy = NewSingleHostReverseProxy u\<rparr>)\<rparr>)))"

definition addStatic :: "string \<Rightarrow> string \<Rightarrow> 'u globals \<Rightarrow> ('u, 'u globals) run" where
  "addStatic host dir g =
     ([], Inr (g\<lparr>static := (static g)(host \<mapsto>
             \<lparr>Dir = dir, Static_Handler = FileServer dir\<rparr>)\<rparr>))"

subsection \<open>The dispatcher\<close>

text \<open>
  \<open>Handler\<close> reads the four maps and writes none of them; the state it leaves is
  returned with the outcome, so that this is a statement about the model and not a
  convention.
\<close>

definition Handler :: "Request \<Rightarrow> 'u globals \<Rightarrow> (failure + 'u call list) \<times> 'u globals" where
  "Handler request g =
     (case redirect g (Host request) of
        Some thisRedirect \<Rightarrow> (Redirect_ServeHTTP thisRedirect request, g)
      | None \<Rightarrow>
     (case proxy g (Host request) of
        Some thisProxy \<Rightarrow> (Proxy_ServeHTTP thisProxy request, g)
      | None \<Rightarrow>
     (case notFound g (Host request) of
        Some thisNotFound \<Rightarrow> (NotFound_ServeHTTP thisNotFound request, g)
      | None \<Rightarrow>
     (case static g (Host request) of
        Some thisStatic \<Rightarrow> (Static_ServeHTTP thisStatic request, g)
      | None \<Rightarrow>
          (if genericNotFound g = NilHandler
           then Inl (Panic ''nil pointer dereference'')
           else Inr [Log (''Host Not Found('' @ Host request @ '')'' @ nl),
                     Handler_ServeHTTP (genericNotFound g)], g)))))"

subsection \<open>Startup\<close>

text \<open>
  Sequencing of two steps of the startup: the second runs on the value of the first
  unless the first ended the process; the traces follow one another.
\<close>

definition then_run :: "('u, 'a) run \<Rightarrow> ('a \<Rightarrow> ('u, 'b) run) \<Rightarrow> ('u, 'b) run" where
  "then_run m f =
     (case m of
        (t, Inl e) \<Rightarrow> (t, Inl e)
      | (t, Inr a) \<Rightarrow> (case f a of (t', r) \<Rightarrow> (t @ t', r)))"

definition log_Println :: "string \<Rightarrow> ('u, unit) run" where
  "log_Println s = ([Log (s @ nl)], Inr ())"

definition skip :: "'a \<Rightarrow> ('u, 'a) run" where
  "skip a = ([], Inr a)"

text \<open>
  The configuration reader (goconfig) and the directory listing are outside the
  program. A file of the directory is given by its name and by what
  \<open>goconfig.LoadConfigFile\<close> returns for it; a loaded configuration is given by what
  \<open>GetValue("DEFAULT", key)\<close> returns for each key.
\<close>

type_synonym cfg = "string \<Rightarrow> error + string"

record conf_file =
  Name :: string
  LoadConfigFile :: "error + cfg"

text \<open>The body of the loop over the files in \<open>main\<close>.\<close>

definition loadFile ::
  "(string \<Rightarrow> error + 'u) \<Rightarrow> conf_file \<Rightarrow> 'u globals \<Rightarrow> ('u, 'u globals) run" where
  "loadFile parse f g =
     then_run (log_Println (''Loading '' @ Name f)) (\<lambda>_.
     (case LoadConfigFile f of Inl err \<Rightarrow> log_Fatal err | Inr cfg \<Rightarrow>
     (case cfg ''host'' of Inl err \<Rightarrow> log_Fatal err | Inr host \<Rightarrow>
     then_run (log_Println (''host= '' @ host)) (\<lambda>_.
     (case cfg ''type'' of Inl err \<Rightarrow> log_Fatal err | Inr typ \<Rightarrow>
     then_run (log_Println (''type= '' @ typ)) (\<lambda>_.
     then_run (if typ = ''NotFound'' then addNotFound host g else skip g) (\<lambda>g.
     then_run (if typ = ''Proxy''
               then (case cfg ''to'' of Inl err \<Rightarrow> log_Fatal err | Inr to \<Rightarrow>
                       then_run (log_Println (''to= '' @ to)) (\<lambda>_. addProxy parse host to g))
               else skip g) (\<lambda>g.
     then_run (if typ = ''Static''
               then (case cfg ''dir'' of Inl err \<Rightarrow> log_Fatal err | Inr dir \<Rightarrow>
                       then_run (log_Println (''dir= '' @ dir)) (\<lambda>_. addStatic host dir g))
               else skip g) (\<lambda>g.
     (if typ = ''Redirect''
      then (case cfg ''to'' of Inl err \<Rightarrow> log_Fatal err | Inr to \<Rightarrow>
              then_run (log_Println (''to= '' @ to)) (\<lambda>_. addRedirect host to g))
      else skip g))))))))))"

fun main_loop ::
  "(string \<Rightarrow> error + 'u) \<Rightarrow> conf_file list \<Rightarrow> 'u globals \<Rightarrow> ('u, 'u globals) run" where
  "main_loop parse [] g = skip g"
| "main_loop parse (f # fs) g = then_run (loadFile parse f g) (main_loop parse fs)"

text \<open>
  The package state when \<open>main\<close> has made the four maps: \<open>genericNotFound\<close> was
  set by its initialiser.
\<close>

definition init_globals :: "'u globals" where
  "init_globals =
     \<lparr>redirect = Map.empty, proxy = Map.empty, notFound = Map.empty, static = Map.empty,
      genericNotFound = NotFoundHandler\<rparr>"

text \<open>
  \<open>main\<close> up to the call of \<open>http.ListenAndServe\<close>: \<open>files\<close> is the listing of the
  configuration directory (empty when the listing failed, as the error is dropped).
  The value \<open>Inr g\<close> says that the server starts, with \<open>Handler\<close> serving every request
  from the state \<open>g\<close>; \<open>Inl (Exit 1)\<close> says that the process ended before that.
\<close>

definition main :: "(string \<Rightarrow> error + 'u) \<Rightarrow> conf_file list \<Rightarrow> ('u, 'u globals) run" where
  "main parse files =
     then_run (main_loop parse files init_globals) (\<lambda>g.
     then_run (log_Println ''Starting Server'') (\<lambda>_. skip g))"

subsection \<open>Notions used in the statements\<close>

text \<open>The response of a request: the calls of its trace that are not log lines.\<close>

primrec is_Log :: "'u call \<Rightarrow> bool" where
  "is_Log (Log _) = True"
| "is_Log (http_Redirect _ _) = False"
| "is_Log (http_ServeFile _) = False"
| "is_Log (ReverseProxy_ServeHTTP _) = False"
| "is_Log (Handler_ServeHTTP _) = False"

definition writes :: "'u call list \<Rightarrow> 'u call list" where
  "writes cs = filter (\<lambda>c. \<not> is_Log c) cs"

text \<open>
  The precedence in the words of the specification: of the variants whose map holds the
  host, Redirect comes before ReverseProxy, that before NotFound, that before StaticSite.
  \<open>invoke\<close> runs the handler of the host's entry of one variant.
\<close>

datatype variant = VRedirect | VReverseProxy | VNotFound | VStaticSite

definition precedence :: "'u globals \<Rightarrow> string \<Rightarrow> variant option" where
  "precedence g h =
     (if h \<in> dom (redirect g) then Some VRedirect
      else if h \<in> dom (proxy g) then Some VReverseProxy
      else if h \<in> dom (notFound g) then Some VNotFound
      else if h \<in> dom (static g) then Some VStaticSite
      else None)"

primrec invoke :: "variant \<Rightarrow> 'u globals \<Rightarrow> Request \<Rightarrow> failure + 'u call list" where
  "invoke VRedirect g r = Redirect_ServeHTTP (the (redirect g (Host r))) r"
| "invoke VReverseProxy g r = Proxy_ServeHTTP (the (proxy g (Host r))) r"
| "invoke VNotFound g r = NotFound_ServeHTTP (the (notFound g (Host r))) r"
| "invoke VStaticSite g r = Static_ServeHTTP (the (static g (Host r))) r"

text \<open>The hosts that the files of a listing register under one type.\<close>

definition hosts_of :: "string \<Rightarrow> conf_file list \<Rightarrow> string set" where
  "hosts_of typ fs =
     {h. \<exists>f \<in> set fs. \<exists>cfg.
        LoadConfigFile f = Inr cfg \<and> cfg ''host'' = Inr h \<and> cfg ''type'' = Inr typ}"

text \<open>Every entry of the notFound map holds the library's not-found handler.\<close>

definition notFound_ok :: "'u globals \<Rightarrow> bool" where
  "notFound_ok g = (\<forall>h n. notFound g h = Some n \<longrightarrow> NotFound_Handler n = NotFoundHandler)"

text \<open>
  Concrete inputs for the examples: a parser that refuses one string, and the
  configuration of a proxy route for host \<open>h\<close> and upstream \<open>t\<close>.
\<close>

definition parse0 :: "string \<Rightarrow> error + string" where
  "parse0 s = (if s = ''bad'' then Inl ''parse error'' else Inr s)"

definition cfgProxy :: "string \<Rightarrow> string \<Rightarrow> cfg" where
  "cfgProxy h t k =
     (if k = ''host'' then Inr h
      else if k = ''type'' then Inr ''Proxy''
      else if k = ''to'' then Inr t
      else Inl ''key not found'')"

definition cfgRedirect :: "string \<Rightarrow> string \<Rightarrow> cfg" where
  "cfgRedirect h t k =
     (if k = ''host'' then Inr h
      else if k = ''type'' then Inr ''Redirect''
      else if k = ''to'' then Inr t
      else Inl ''key not found'')"

definition cfgNotFound :: "string \<Rightarrow> cfg" where
  "cfgNotFound h k =
     (if k = ''host'' then Inr h
      else if k = ''type'' then Inr ''NotFound''
      else Inl ''key not found'')"

text \<open>
  Two files for the same host, one of type NotFound and one of type Redirect, the state
  that loading both leaves, and a request for that host.
\<close>

definition fileA :: conf_file where
  "fileA = \<lparr>Name = ''a.ini'', LoadConfigFile = Inr (cfgNotFound ''h'')\<rparr>"

definition fileB :: conf_file where
  "fileB = \<lparr>Name = ''b.ini'',
             LoadConfigFile = Inr (cfgRedirect ''h'' ''https://example.com'')\<rparr>"

definition tableAB :: "string globals" where
  "tableAB =
     \<lparr>redirect = [''h'' \<mapsto> \<lparr>Redirect_To = ''https://example.com'',
                            Redirect_Handler = NilHandler\<rparr>],
      proxy = Map.empty,
      notFound = [''h'' \<mapsto> \<lparr>NotFound_Handler = NotFoundHandler\<rparr>],
      static = Map.empty,
      genericNotFound = NotFoundHandler\<rparr>"

definition req0 :: Request where
  "req0 = \<lparr>Host = ''h'', RequestURI = ''/a/b?x=1'', URL_Path = ''/a/b''\<rparr>"

text \<open>Further concrete inputs: states, requests and a proxy file with an upstream that
  does not parse.\<close>

definition tableA :: "string globals" where
  "tableA =
     \<lparr>redirect = Map.empty, proxy = Map.empty,
      notFound = [''h'' \<mapsto> \<lparr>NotFound_Handler = NotFoundHandler\<rparr>],
      static = Map.empty,
      genericNotFound = NotFoundHandler\<rparr>"


definition req1 :: Request where
  "req1 = \<lparr>Host = ''other'', RequestURI = ''/x'', URL_Path = ''/x''\<rparr>"

definition fileBad :: conf_file where
  "fileBad = \<lparr>Name = ''c.ini'', LoadConfigFile = Inr (cfgProxy ''p'' ''bad'')\<rparr>"

section \<open>Properties\<close>

subsection \<open>Sequencing and the startup loop\<close>

lemma snd_then_run:
  "snd (then_run m f) = (case snd m of Inl e \<Rightarrow> Inl e | Inr a \<Rightarrow> snd (f a))"
  by (cases m) (auto simp: then_run_def split: sum.splits prod.splits)

lemma snd_steps [simp]:
  "snd (log_Println s) = Inr ()"
  "snd (log_Fatal e) = Inl (Exit 1)"
  "snd (skip a) = Inr a"
  by (simp_all add: log_Println_def log_Fatal_def skip_def)

text \<open>What one file of the listing does to the state, the log left out.\<close>

lemma snd_loadFile:
  "snd (loadFile parse f g) =
    (case LoadConfigFile f of Inl err \<Rightarrow> Inl (Exit 1) | Inr cfg \<Rightarrow>
     (case cfg ''host'' of Inl err \<Rightarrow> Inl (Exit 1) | Inr host \<Rightarrow>
     (case cfg ''type'' of Inl err \<Rightarrow> Inl (Exit 1) | Inr typ \<Rightarrow>
       (if typ = ''NotFound'' then snd (addNotFound host g)
        else if typ = ''Proxy'' then
          (case cfg ''to'' of Inl err \<Rightarrow> Inl (Exit 1)
           | Inr to \<Rightarrow> snd (addProxy parse host to g))
        else if typ = ''Static'' then
          (case cfg ''dir'' of Inl err \<Rightarrow> Inl (Exit 1)
           | Inr dir \<Rightarrow> snd (addStatic host dir g))
        else if typ = ''Redirect'' then
          (case cfg ''to'' of Inl err \<Rightarrow> Inl (Exit 1)
           | Inr to \<Rightarrow> snd (addRedirect host to g))
        else Inr g))))"
  by (simp add: loadFile_def snd_then_run addNotFound_def addStatic_def addRedirect_def
      addProxy_def split: sum.splits)

lemma hosts_of_Nil [simp]: "hosts_of typ [] = {}"
  by (simp add: hosts_of_def)

lemma hosts_of_single:
  "hosts_of typ [f] =
     (case LoadConfigFile f of Inl _ \<Rightarrow> {} | Inr cfg \<Rightarrow>
       (case cfg ''host'' of Inl _ \<Rightarrow> {} | Inr h \<Rightarrow>
         (if cfg ''type'' = Inr typ then {h} else {})))"
  by (auto simp: hosts_of_def split: sum.splits)

lemma hosts_of_Cons: "hosts_of typ (f # fs) = hosts_of typ [f] \<union> hosts_of typ fs"
  by (auto simp: hosts_of_def)

lemma hosts_of_set: "set fs = set fs' \<Longrightarrow> hosts_of typ fs = hosts_of typ fs'"
  by (simp add: hosts_of_def)

lemma loadFile_Inr:
  assumes "snd (loadFile parse f g) = Inr g'"
  shows "dom (redirect g') = dom (redirect g) \<union> hosts_of ''Redirect'' [f]"
    and "dom (proxy g') = dom (proxy g) \<union> hosts_of ''Proxy'' [f]"
    and "dom (notFound g') = dom (notFound g) \<union> hosts_of ''NotFound'' [f]"
    and "dom (static g') = dom (static g) \<union> hosts_of ''Static'' [f]"
    and "genericNotFound g' = genericNotFound g"
    and "notFound_ok g \<Longrightarrow> notFound_ok g'"
  using assms
  by (auto simp: snd_loadFile hosts_of_single addNotFound_def addStatic_def addRedirect_def
      addProxy_def log_Fatal_def notFound_ok_def split: sum.splits if_splits)

lemma main_loop_Inr:
  "snd (main_loop parse fs g) = Inr g' \<Longrightarrow>
     dom (redirect g') = dom (redirect g) \<union> hosts_of ''Redirect'' fs \<and>
     dom (proxy g') = dom (proxy g) \<union> hosts_of ''Proxy'' fs \<and>
     dom (notFound g') = dom (notFound g) \<union> hosts_of ''NotFound'' fs \<and>
     dom (static g') = dom (static g) \<union> hosts_of ''Static'' fs \<and>
     genericNotFound g' = genericNotFound g \<and>
     (notFound_ok g \<longrightarrow> notFound_ok g')"
proof (induction fs arbitrary: g)
  case Nil
  then show ?case by simp
next
  case (Cons f fs)
  from Cons.prems obtain g1 where
    1: "snd (loadFile parse f g) = Inr g1" and 2: "snd (main_loop parse fs g1) = Inr g'"
    by (auto simp: snd_then_run split: sum.splits)
  note L = loadFile_Inr[OF 1]
  note I = Cons.IH[OF 2]
  show ?case
    using L I by (simp add: hosts_of_Cons[of _ f fs] Un_assoc)
qed

text \<open>The startup ends in one of two ways: the state is built, or the process exits with 1.\<close>

lemma snd_loadFile_cases:
  "snd (loadFile parse f g) = Inl (Exit 1) \<or> (\<exists>g'. snd (loadFile parse f g) = Inr g')"
  by (auto simp: snd_loadFile addNotFound_def addStatic_def addRedirect_def
      addProxy_def log_Fatal_def split: sum.splits if_splits)

lemma snd_main_loop_cases:
  "snd (main_loop parse fs g) = Inl (Exit 1) \<or> (\<exists>g'. snd (main_loop parse fs g) = Inr g')"
proof (induction fs arbitrary: g)
  case Nil
  show ?case by simp
next
  case (Cons f fs)
  from snd_loadFile_cases[of parse f g] show ?case
  proof
    assume "snd (loadFile parse f g) = Inl (Exit 1)"
    then show ?thesis by (simp add: snd_then_run)
  next
    assume "\<exists>g'. snd (loadFile parse f g) = Inr g'"
    then obtain g1 where "snd (loadFile parse f g) = Inr g1" ..
    then show ?thesis using Cons.IH[of g1] by (simp add: snd_then_run)
  qed
qed

lemma bad_proxy_loadFile:
  assumes "LoadConfigFile f = Inr cfg" "cfg ''host'' = Inr host" "cfg ''type'' = Inr ''Proxy''"
    "cfg ''to'' = Inr to" "parse to = Inl err"
  shows "snd (loadFile parse f g) = Inl (Exit 1)"
  using assms by (simp add: snd_loadFile addProxy_def)

lemma bad_proxy_main_loop:
  assumes "f \<in> set fs" "LoadConfigFile f = Inr cfg" "cfg ''host'' = Inr host"
    "cfg ''type'' = Inr ''Proxy''" "cfg ''to'' = Inr to" "parse to = Inl err"
  shows "snd (main_loop parse fs g) = Inl (Exit 1)"
  using assms(1)
proof (induction fs arbitrary: g)
  case Nil
  then show ?case by simp
next
  case (Cons a fs)
  show ?case
  proof (cases "a = f")
    case True
    have "snd (loadFile parse f g) = Inl (Exit 1)"
      using assms(2-6) by (rule bad_proxy_loadFile)
    with True show ?thesis by (simp add: snd_then_run)
  next
    case False
    with Cons.prems have "f \<in> set fs" by simp
    then have "\<And>g. snd (main_loop parse fs g) = Inl (Exit 1)" by (rule Cons.IH)
    then show ?thesis
      using snd_loadFile_cases[of parse a g] by (auto simp: snd_then_run split: sum.splits)
  qed
qed

lemma snd_main: "snd (main parse files) = snd (main_loop parse files init_globals)"
  by (simp add: main_def snd_then_run split: sum.splits)

lemma init_globals_simps [simp]:
  "redirect init_globals = Map.empty" "proxy init_globals = Map.empty"
  "notFound init_globals = Map.empty" "static init_globals = Map.empty"
  "genericNotFound init_globals = NotFoundHandler"
  by (simp_all add: init_globals_def)

lemma main_Inr:
  assumes "snd (main parse files) = Inr g"
  shows "genericNotFound g = NotFoundHandler" and "notFound_ok g"
  using main_loop_Inr[of parse files init_globals g] assms
  by (simp_all add: snd_main notFound_ok_def)

lemma main_loop_dom_set:
  assumes "snd (main_loop parse fs g0) = Inr g1" "snd (main_loop parse fs' g0) = Inr g2"
    "set fs = set fs'"
  shows "dom (redirect g1) = dom (redirect g2)" "dom (proxy g1) = dom (proxy g2)"
    "dom (notFound g1) = dom (notFound g2)" "dom (static g1) = dom (static g2)"
proof -
  note A = main_loop_Inr[OF assms(1)]
  note B = main_loop_Inr[OF assms(2)]
  note s = hosts_of_set[OF assms(3)]
  from A B show "dom (redirect g1) = dom (redirect g2)" by (simp only: s[of "''Redirect''"])
  from A B show "dom (proxy g1) = dom (proxy g2)" by (simp only: s[of "''Proxy''"])
  from A B show "dom (notFound g1) = dom (notFound g2)" by (simp only: s[of "''NotFound''"])
  from A B show "dom (static g1) = dom (static g2)" by (simp only: s[of "''Static''"])
qed

lemma run_AB: "snd (main_loop parse0 [fileA, fileB] init_globals) = Inr tableAB"
  by (simp add: snd_then_run snd_loadFile fileA_def fileB_def cfgNotFound_def cfgRedirect_def
      addNotFound_def addRedirect_def init_globals_def tableAB_def)

lemma run_BA: "snd (main_loop parse0 [fileB, fileA] init_globals) = Inr tableAB"
  by (simp add: snd_then_run snd_loadFile fileA_def fileB_def cfgNotFound_def cfgRedirect_def
      addNotFound_def addRedirect_def init_globals_def tableAB_def)

subsection \<open>The dispatcher\<close>

text \<open>
  C1. When the host of a request is held by one or more of the four maps, \<open>Handler\<close>
  runs the handler of the first variant, in the order Redirect, ReverseProxy, NotFound,
  StaticSite, whose map holds the host, and what it does is what that one handler does:
  no other handler runs. The variant depends on which maps hold the host and not on the
  order of the registrations: two startups that load the same files in different orders,
  when both succeed, give states with the same variant for every host.
\<close>

theorem Handler_precedence:
  "(precedence g (Host r) = Some v \<longrightarrow> Handler r g = (invoke v g r, g)) \<and>
   (snd (main_loop parse fs g0) = Inr g1 \<and> snd (main_loop parse fs' g0) = Inr g2 \<and>
    set fs = set fs' \<longrightarrow> precedence g1 h = precedence g2 h)"
proof (intro conjI impI)
  assume "precedence g (Host r) = Some v"
  then show "Handler r g = (invoke v g r, g)"
    by (auto simp: precedence_def Handler_def domIff split: if_splits option.splits)
next
  assume a: "snd (main_loop parse fs g0) = Inr g1 \<and> snd (main_loop parse fs' g0) = Inr g2 \<and>
    set fs = set fs'"
  then have "dom (redirect g1) = dom (redirect g2)" "dom (proxy g1) = dom (proxy g2)"
    "dom (notFound g1) = dom (notFound g2)" "dom (static g1) = dom (static g2)"
    using main_loop_dom_set[of parse fs g0 g1 fs' g2] by blast+
  then show "precedence g1 h = precedence g2 h"
    by (simp only: precedence_def)
qed

text \<open>
  The host \<open>h\<close> is registered as NotFound and as Redirect; in either order of the two
  files the state is the same and the request is answered by the redirect.
\<close>

theorem Handler_precedence_witness:
  "precedence tableAB (Host req0) = Some VRedirect \<and>
   fst (Handler req0 tableAB) =
     Inr [Log (''Redirecting(h) https://example.com'' @ nl),
          http_Redirect ''https://example.com/a/b?x=1'' 301] \<and>
   snd (main_loop parse0 [fileA, fileB] init_globals) = Inr tableAB \<and>
   snd (main_loop parse0 [fileB, fileA] init_globals) = Inr tableAB"
proof -
  have p: "precedence tableAB (Host req0) = Some VRedirect"
    by (simp add: precedence_def tableAB_def req0_def)
  have s: "set [fileA, fileB] = set [fileB, fileA]" by auto
  from Handler_precedence[of tableAB req0 VRedirect parse0 "[fileA, fileB]" init_globals
      tableAB "[fileB, fileA]" tableAB "''h''"] p run_AB run_BA s
  show ?thesis
    by (simp add: tableAB_def req0_def Redirect_ServeHTTP_def)
qed

lemma main_AB: "snd (main parse0 [fileA, fileB]) = Inr tableAB"
  by (simp only: snd_main run_AB)

lemma main_A: "snd (main parse0 [fileA]) = Inr tableA"
  by (simp add: snd_main snd_then_run snd_loadFile fileA_def cfgNotFound_def
      addNotFound_def init_globals_def tableA_def)


text \<open>
  C3. In a state that the startup has built, a request whose host is in none of the four
  maps gets the generic not-found response: one log line and one call of the library's
  not-found handler kept in \<open>genericNotFound\<close>. No entry's handler runs, the outcome is
  not a failure, and the state is as it was.
\<close>

theorem Handler_routing_miss:
  assumes "snd (main parse files) = Inr g"
    and "redirect g (Host r) = None" and "proxy g (Host r) = None"
    and "notFound g (Host r) = None" and "static g (Host r) = None"
  shows "Handler r g =
     (Inr [Log (''Host Not Found('' @ Host r @ '')'' @ nl),
           Handler_ServeHTTP NotFoundHandler], g)"
  using assms(2-5) main_Inr(1)[OF assms(1)]
  by (simp add: Handler_def)

theorem Handler_routing_miss_witness:
  "snd (main parse0 [fileA, fileB]) = Inr tableAB \<and>
   redirect tableAB (Host req1) = None \<and> proxy tableAB (Host req1) = None \<and>
   notFound tableAB (Host req1) = None \<and> static tableAB (Host req1) = None \<and>
   Handler req1 tableAB =
     (Inr [Log (''Host Not Found(other)'' @ nl), Handler_ServeHTTP NotFoundHandler], tableAB)"
proof -
  have h: "redirect tableAB (Host req1) = None" "proxy tableAB (Host req1) = None"
    "notFound tableAB (Host req1) = None" "static tableAB (Host req1) = None"
    by (simp_all add: tableAB_def req1_def)
  from Handler_routing_miss[OF main_AB h] main_AB h show ?thesis
    by (simp add: req1_def)
qed

text \<open>
  C8. In a state that the startup has built, the generic response for a host that is not
  registered and the response of an explicit NotFound entry, for requests that differ in
  the host only, are the same call of the library's not-found handler; the two traces
  differ in the log line alone.
\<close>

theorem generic_equals_explicit:
  assumes "snd (main parse files) = Inr g"
    and "redirect g (Host r) = None" and "proxy g (Host r) = None"
    and "notFound g (Host r) = None" and "static g (Host r) = None"
    and "redirect g h = None" and "proxy g h = None" and "notFound g h = Some n"
  shows "\<exists>a b. fst (Handler r g) = Inr a \<and> fst (Handler (r\<lparr>Host := h\<rparr>) g) = Inr b \<and>
           writes a = writes b \<and> writes a = [Handler_ServeHTTP NotFoundHandler] \<and>
           a = [Log (''Host Not Found('' @ Host r @ '')'' @ nl),
                Handler_ServeHTTP NotFoundHandler] \<and>
           b = [Log (''Not Found('' @ h @ '') '' @ RequestURI r @ nl),
                Handler_ServeHTTP NotFoundHandler]"
proof -
  from main_Inr[OF assms(1)] have gen: "genericNotFound g = NotFoundHandler"
    and ok: "notFound_ok g" by simp_all
  from ok assms(8) have n: "NotFound_Handler n = NotFoundHandler"
    by (simp add: notFound_ok_def)
  show ?thesis
    using assms(2-8) gen n
    by (simp add: Handler_def NotFound_ServeHTTP_def writes_def)
qed

theorem generic_equals_explicit_witness:
  "snd (main parse0 [fileA]) = Inr tableA \<and>
   notFound tableA ''h'' = Some \<lparr>NotFound_Handler = NotFoundHandler\<rparr> \<and>
   fst (Handler req1 tableA) =
     Inr [Log (''Host Not Found(other)'' @ nl), Handler_ServeHTTP NotFoundHandler] \<and>
   fst (Handler (req1\<lparr>Host := ''h''\<rparr>) tableA) =
     Inr [Log (''Not Found(h) /x'' @ nl), Handler_ServeHTTP NotFoundHandler]"
proof -
  have h: "redirect tableA (Host req1) = None" "proxy tableA (Host req1) = None"
    "notFound tableA (Host req1) = None" "static tableA (Host req1) = None"
    "redirect tableA ''h'' = None" "proxy tableA ''h'' = None"
    "notFound tableA ''h'' = Some \<lparr>NotFound_Handler = NotFoundHandler\<rparr>"
    by (simp_all add: tableA_def req1_def)
  from generic_equals_explicit[OF main_A h] main_A h(7) show ?thesis
    by (auto simp: req1_def)
qed


subsection \<open>The handlers\<close>



text \<open>
  C10. The Static handler takes \<open>request.URL.Path[1:]\<close>. The slice is in range exactly
  when the path is not empty: then the handler serves the directory followed by the path
  without its first byte, whatever that byte is, and on the empty path it panics.
\<close>

theorem Static_slice:
  "((\<exists>cs. (Static_ServeHTTP s r :: failure + 'u call list) = Inr cs) \<longleftrightarrow> URL_Path r \<noteq> []) \<and>
   (URL_Path r = [] \<longrightarrow>
      (Static_ServeHTTP s r :: failure + 'u call list) = Inl (Panic ''slice bounds out of range'')) \<and>
   (\<forall>c rest. URL_Path r = c # rest \<longrightarrow>
      (Static_ServeHTTP s r :: failure + 'u call list) =
        Inr [Log (''Serving('' @ Host r @ '') '' @ Dir s @ rest @ nl),
             http_ServeFile (Dir s @ rest)])"
  by (cases "URL_Path r") (simp_all add: Static_ServeHTTP_def slice_from1_def)

theorem Static_slice_witness:
  "(Static_ServeHTTP \<lparr>Dir = ''/srv/www/'', Static_Handler = FileServer ''/srv/www/''\<rparr>
      \<lparr>Host = ''h'', RequestURI = ''x.html'', URL_Path = ''x.html''\<rparr> :: failure + string call list) =
     Inr [Log (''Serving(h) /srv/www/.html'' @ nl), http_ServeFile ''/srv/www/.html''] \<and>
   (Static_ServeHTTP \<lparr>Dir = ''/srv/www/'', Static_Handler = FileServer ''/srv/www/''\<rparr>
      \<lparr>Host = ''h'', RequestURI = [], URL_Path = []\<rparr> :: failure + string call list) =
     Inl (Panic ''slice bounds out of range'')"
proof -
  let ?s = "\<lparr>Dir = ''/srv/www/'', Static_Handler = FileServer ''/srv/www/''\<rparr>"
  let ?r1 = "\<lparr>Host = ''h'', RequestURI = ''x.html'', URL_Path = ''x.html''\<rparr>"
  let ?r2 = "\<lparr>Host = ''h'', RequestURI = [], URL_Path = []\<rparr>"
  have p1: "URL_Path ?r1 = CHR ''x'' # ''.html''" by simp
  have p2: "URL_Path ?r2 = []" by simp
  note A = Static_slice[of ?s ?r1, where 'u = string]
  note B = Static_slice[of ?s ?r2, where 'u = string]
  from A p1 have 1: "(Static_ServeHTTP ?s ?r1 :: failure + string call list) =
      Inr [Log (''Serving('' @ Host ?r1 @ '') '' @ Dir ?s @ ''.html'' @ nl),
           http_ServeFile (Dir ?s @ ''.html'')]"
    by blast
  from B p2 have 2: "(Static_ServeHTTP ?s ?r2 :: failure + string call list) =
      Inl (Panic ''slice bounds out of range'')"
    by blast
  from 1 2 show ?thesis by simp
qed




subsection \<open>Registration\<close>

text \<open>
  C6, as the specification states it, has \<open>addNotFound\<close> require a host that is not the
  empty string. The function has no such check: the empty host is registered like any
  other.
\<close>

theorem addNotFound_empty_host_counterexample:
  "snd (addNotFound [] (init_globals :: string globals)) =
     Inr (init_globals\<lparr>notFound := [[] \<mapsto> \<lparr>NotFound_Handler = NotFoundHandler\<rparr>]\<rparr>)"
  by (simp add: addNotFound_def)

text \<open>
  C6, amended. \<open>addNotFound\<close> checks nothing: for every host, the empty string
  included, it logs one line and stores a NotFound entry for the host, leaving the
  other maps as they were.
\<close>

theorem addNotFound_unconditional:
  "addNotFound host g =
     ([Log (''Adding host to notFound: '' @ host @ nl)],
      Inr (g\<lparr>notFound := (notFound g)(host \<mapsto> \<lparr>NotFound_Handler = NotFoundHandler\<rparr>)\<rparr>))
   \<and> (\<exists>g'. snd (addNotFound host g) = Inr g' \<and>
         notFound g' host = Some \<lparr>NotFound_Handler = NotFoundHandler\<rparr> \<and>
         redirect g' = redirect g \<and> proxy g' = proxy g \<and> static g' = static g \<and>
         genericNotFound g' = genericNotFound g)"
  by (simp add: addNotFound_def)

text \<open>
  C4. \<open>addProxy\<close> parses the upstream. When the parse fails it logs the error and the
  process exits with status 1; a startup whose listing holds a proxy file with such an
  upstream never reaches the server, whatever the other files are. When the parse
  succeeds the proxy map gets an entry for the host with the upstream string and the
  reverse proxy made from the parsed URL.
\<close>

theorem addProxy_fatal:
  "(parse to = Inl err \<longrightarrow>
      addProxy parse host to g = ([Log (err @ nl)], Inl (Exit 1))) \<and>
   (f \<in> set files \<and> LoadConfigFile f = Inr cfg \<and> cfg ''host'' = Inr host \<and>
    cfg ''type'' = Inr ''Proxy'' \<and> cfg ''to'' = Inr to \<and> parse to = Inl err \<longrightarrow>
      snd (main parse files) = Inl (Exit 1)) \<and>
   (parse to = Inr u \<longrightarrow>
      addProxy parse host to g =
        ([], Inr (g\<lparr>proxy := (proxy g)(host \<mapsto>
               \<lparr>Proxy_To = to, Proxy_ReverseProxy = NewSingleHostReverseProxy u\<rparr>)\<rparr>)))"
proof (intro conjI impI)
  assume "parse to = Inl err"
  then show "addProxy parse host to g = ([Log (err @ nl)], Inl (Exit 1))"
    by (simp add: addProxy_def log_Fatal_def)
next
  assume a: "f \<in> set files \<and> LoadConfigFile f = Inr cfg \<and> cfg ''host'' = Inr host \<and>
    cfg ''type'' = Inr ''Proxy'' \<and> cfg ''to'' = Inr to \<and> parse to = Inl err"
  then have "snd (main_loop parse files init_globals) = Inl (Exit 1)"
    using bad_proxy_main_loop[of f files cfg host to parse err init_globals] by blast
  then show "snd (main parse files) = Inl (Exit 1)"
    by (simp only: snd_main)
next
  assume "parse to = Inr u"
  then show "addProxy parse host to g =
        ([], Inr (g\<lparr>proxy := (proxy g)(host \<mapsto>
               \<lparr>Proxy_To = to, Proxy_ReverseProxy = NewSingleHostReverseProxy u\<rparr>)\<rparr>))"
    by (simp add: addProxy_def)
qed

theorem addProxy_fatal_witness:
  "addProxy parse0 ''p'' ''bad'' (init_globals :: string globals) =
     ([Log (''parse error'' @ nl)], Inl (Exit 1)) \<and>
   snd (main parse0 [fileB, fileBad]) = Inl (Exit 1) \<and>
   addProxy parse0 ''p'' ''http://127.0.0.1:9000'' (init_globals :: string globals) =
     ([], Inr (init_globals\<lparr>proxy := [''p'' \<mapsto>
        \<lparr>Proxy_To = ''http://127.0.0.1:9000'',
         Proxy_ReverseProxy = NewSingleHostReverseProxy ''http://127.0.0.1:9000''\<rparr>]\<rparr>))"
proof -
  have b: "parse0 ''bad'' = Inl ''parse error''" by (simp add: parse0_def)
  have c: "parse0 ''http://127.0.0.1:9000'' = Inr ''http://127.0.0.1:9000''"
    by (simp add: parse0_def)
  have f: "fileBad \<in> set [fileB, fileBad]" "LoadConfigFile fileBad = Inr (cfgProxy ''p'' ''bad'')"
    "cfgProxy ''p'' ''bad'' ''host'' = Inr ''p''" "cfgProxy ''p'' ''bad'' ''type'' = Inr ''Proxy''"
    "cfgProxy ''p'' ''bad'' ''to'' = Inr ''bad''"
    by (simp_all add: fileBad_def cfgProxy_def)
  from addProxy_fatal[of parse0 "''bad''" "''parse error''" "''p''" "init_globals :: string globals"
      fileBad "[fileB, fileBad]" "cfgProxy ''p'' ''bad''"] b f
  have 1: "addProxy parse0 ''p'' ''bad'' (init_globals :: string globals) =
     ([Log (''parse error'' @ nl)], Inl (Exit 1))"
    and 2: "snd (main parse0 [fileB, fileBad]) = Inl (Exit 1)"
    by blast+
  from addProxy_fatal[of parse0 "''http://127.0.0.1:9000''" _ "''p''"
      "init_globals :: string globals" _ _ _ "''http://127.0.0.1:9000''"] c
  have 3: "addProxy parse0 ''p'' ''http://127.0.0.1:9000'' (init_globals :: string globals) =
     ([], Inr (init_globals\<lparr>proxy := (proxy init_globals)(''p'' \<mapsto>
        \<lparr>Proxy_To = ''http://127.0.0.1:9000'',
         Proxy_ReverseProxy = NewSingleHostReverseProxy ''http://127.0.0.1:9000''\<rparr>)\<rparr>))"
    by blast
  from 1 2 3 show ?thesis by simp
qed

text \<open>
  C7. Registering twice with the same arguments leaves the state that registering once
  leaves, for each of the four factories. A second registration of a host in the same
  map leaves the state that the second registration alone leaves, so the host has one
  entry, the one registered last. (For the proxy map the first registration has to
  succeed: a failed one ends the process.)
\<close>

theorem registration_idempotent:
  "snd (then_run (addNotFound h g) (addNotFound h)) = snd (addNotFound h g) \<and>
   snd (then_run (addRedirect h a g) (addRedirect h a)) = snd (addRedirect h a g) \<and>
   snd (then_run (addProxy parse h a g) (addProxy parse h a)) = snd (addProxy parse h a g) \<and>
   snd (then_run (addStatic h d g) (addStatic h d)) = snd (addStatic h d g) \<and>
   snd (then_run (addRedirect h a g) (addRedirect h b)) = snd (addRedirect h b g) \<and>
   (parse a = Inr u \<longrightarrow>
      snd (then_run (addProxy parse h a g) (addProxy parse h b)) = snd (addProxy parse h b g)) \<and>
   snd (then_run (addStatic h d g) (addStatic h d')) = snd (addStatic h d' g) \<and>
   (\<exists>g'. snd (addRedirect h b g) = Inr g' \<and>
      redirect g' h = Some \<lparr>Redirect_To = b, Redirect_Handler = NilHandler\<rparr>) \<and>
   (\<exists>g'. snd (addStatic h d' g) = Inr g' \<and>
      static g' h = Some \<lparr>Dir = d', Static_Handler = FileServer d'\<rparr>) \<and>
   (\<exists>g'. snd (addNotFound h g) = Inr g' \<and>
      notFound g' h = Some \<lparr>NotFound_Handler = NotFoundHandler\<rparr>) \<and>
   (parse b = Inr u' \<longrightarrow> (\<exists>g'. snd (addProxy parse h b g) = Inr g' \<and>
      proxy g' h = Some \<lparr>Proxy_To = b, Proxy_ReverseProxy = NewSingleHostReverseProxy u'\<rparr>))"
proof (intro conjI impI)
  show "snd (then_run (addNotFound h g) (addNotFound h)) = snd (addNotFound h g)"
    by (simp add: snd_then_run addNotFound_def)
  show "snd (then_run (addRedirect h a g) (addRedirect h a)) = snd (addRedirect h a g)"
    by (simp add: snd_then_run addRedirect_def)
  show "snd (then_run (addProxy parse h a g) (addProxy parse h a)) = snd (addProxy parse h a g)"
    by (simp add: snd_then_run addProxy_def split: sum.splits)
  show "snd (then_run (addStatic h d g) (addStatic h d)) = snd (addStatic h d g)"
    by (simp add: snd_then_run addStatic_def)
  show "snd (then_run (addRedirect h a g) (addRedirect h b)) = snd (addRedirect h b g)"
    by (simp add: snd_then_run addRedirect_def)
  show "snd (then_run (addStatic h d g) (addStatic h d')) = snd (addStatic h d' g)"
    by (simp add: snd_then_run addStatic_def)
  show "\<exists>g'. snd (addRedirect h b g) = Inr g' \<and>
      redirect g' h = Some \<lparr>Redirect_To = b, Redirect_Handler = NilHandler\<rparr>"
    by (simp add: addRedirect_def)
  show "\<exists>g'. snd (addStatic h d' g) = Inr g' \<and>
      static g' h = Some \<lparr>Dir = d', Static_Handler = FileServer d'\<rparr>"
    by (simp add: addStatic_def)
  show "\<exists>g'. snd (addNotFound h g) = Inr g' \<and>
      notFound g' h = Some \<lparr>NotFound_Handler = NotFoundHandler\<rparr>"
    by (simp add: addNotFound_def)
next
  assume "parse a = Inr u"
  then show "snd (then_run (addProxy parse h a g) (addProxy parse h b)) =
      snd (addProxy parse h b g)"
    by (simp add: snd_then_run addProxy_def split: sum.splits)
next
  assume "parse b = Inr u'"
  then show "\<exists>g'. snd (addProxy parse h b g) = Inr g' \<and>
      proxy g' h = Some \<lparr>Proxy_To = b, Proxy_ReverseProxy = NewSingleHostReverseProxy u'\<rparr>"
    by (simp add: addProxy_def)
qed

theorem registration_idempotent_witness:
  "snd (then_run (addProxy parse0 ''p'' ''http://a'' (init_globals :: string globals))
          (addProxy parse0 ''p'' ''http://b'')) =
     snd (addProxy parse0 ''p'' ''http://b'' init_globals) \<and>
   snd (addProxy parse0 ''p'' ''http://b'' (init_globals :: string globals)) =
     Inr (init_globals\<lparr>proxy := [''p'' \<mapsto>
        \<lparr>Proxy_To = ''http://b'', Proxy_ReverseProxy = NewSingleHostReverseProxy ''http://b''\<rparr>]\<rparr>)"
proof -
  have a: "parse0 ''http://a'' = Inr ''http://a''" by (simp add: parse0_def)
  have b: "parse0 ''http://b'' = Inr ''http://b''" by (simp add: parse0_def)
  note T = registration_idempotent[where h = "''p''" and g = "init_globals :: string globals"
      and parse = parse0 and a = "''http://a''" and b = "''http://b''"
      and u = "''http://a''" and u' = "''http://b''"]
  from T a have 1:
    "snd (then_run (addProxy parse0 ''p'' ''http://a'' (init_globals :: string globals))
          (addProxy parse0 ''p'' ''http://b'')) =
     snd (addProxy parse0 ''p'' ''http://b'' init_globals)"
    by blast
  from 1 show ?thesis
    by (simp add: addProxy_def b)
qed

end
